theory Spec2Isabelle
  imports Main "HOL-Library.Word"
begin

section \<open>Data model\<close>

text \<open>
  Python \<open>bytes\<close> are lists of 8-bit words. Python integers are unbounded; the values
  popped from the stack with the \<open>UINT256\<close> hint are never negative and are modelled as
  \<open>nat\<close> (so \<open>start_position + 32\<close> never wraps), block numbers as \<open>int\<close>.
\<close>

type_synonym byte = "8 word"
type_synonym bytes = "byte list"

datatype error =
    InsufficientStack
  | FullStack
  | OutOfGas
  | ValidationError
  | AssertionError
  | KeyError
  | BlockNotFound
  | InvalidInstruction nat

text \<open>
  A stack item in its stored representation: the opcodes push both integers
  (\<open>calldatasize\<close>, \<open>balance\<close>) and byte strings (\<open>calldataload\<close>).
\<close>

datatype item = IntItem nat | BytesItem bytes

record gas_meter =
  gas_remaining :: nat
  gas_refunded :: nat

record code_stream =
  raw_code_bytes :: bytes
  pc :: nat

record message =
  data :: bytes

record account =
  account_balance :: nat
  account_code :: bytes

record block_header =
  state_root :: bytes
  parent_hash :: bytes
  block_number :: int
  hash :: bytes

record database =
  headers :: "bytes \<rightharpoonup> block_header"
  tries :: "bytes \<Rightarrow> (bytes \<rightharpoonup> account)"

record block =
  header :: block_header
  number :: int

record vm =
  db :: database
  block :: block

record state =
  state_db_of :: database
  root_hash :: bytes

record computation =
  stack :: "item list"
  memory :: bytes
  gas_meter :: gas_meter
  code :: code_stream
  msg :: message
  vm :: vm

text \<open>
  An operation acts on a computation and either returns or raises; the computation it
  leaves behind is observable in both cases, as the mutations of the Python object are.
\<close>

type_synonym 'a outcome = "(error + 'a) \<times> computation"
type_synonym operation = "computation \<Rightarrow> unit outcome"

text \<open>
  What the sources import without defining or fixing: the constant
  \<open>constants.GAS_COPY\<close> (the spec's \<open>COPY_WORD_COST\<close>, whose value belongs to the gas
  schedule), the pluggable memory-expansion cost (from the current and the new size in
  bytes), the stack's capacity, \<open>force_bytes_to_address\<close> and the conversion of a stored
  integer to bytes that the \<open>BYTES\<close> hint performs. They are parameters of the model.
\<close>

record config =
  GAS_COPY :: nat
  memory_fee :: "nat \<Rightarrow> nat \<Rightarrow> nat"
  stack_limit :: nat
  force_bytes_to_address :: "bytes \<Rightarrow> bytes"
  int_to_big_endian :: "nat \<Rightarrow> bytes"

section \<open>Utilities (evm.utils)\<close>

text \<open>
  Modelled from the spec: \<open>evm.utils.numeric.ceil32\<close> is not among the sources. The
  spec's word count is \<open>ceil(size/32)\<close> and the code computes it as
  \<open>ceil32(size) // 32\<close>, so \<open>ceil32\<close> rounds up to the next multiple of 32.
\<close>

definition ceil32 :: "nat \<Rightarrow> nat" where
  "ceil32 n = (if n mod 32 = 0 then n else n + 32 - n mod 32)"

text \<open>
  Modelled from the spec: \<open>evm.utils.padding.pad_right\<close> is not among the sources;
  ``zero-padding on the right'' up to the requested size, a longer value is left alone.
\<close>

definition pad_right :: "bytes \<Rightarrow> nat \<Rightarrow> byte \<Rightarrow> bytes" where
  "pad_right v to_size pad_with = v @ replicate (to_size - length v) pad_with"

text \<open>Python's \<open>b.lstrip(b'\x00')\<close>.\<close>

definition lstrip_zero :: "bytes \<Rightarrow> bytes" where
  "lstrip_zero bs = dropWhile (\<lambda>b. b = 0) bs"

text \<open>Python's slice \<open>b[start:stop]\<close> for non-negative bounds.\<close>

definition slice :: "bytes \<Rightarrow> nat \<Rightarrow> nat \<Rightarrow> bytes" where
  "slice bs start stop = drop start (take stop bs)"

text \<open>The big-endian integer value of a byte string.\<close>

definition big_endian_to_int :: "bytes \<Rightarrow> nat" where
  "big_endian_to_int bs = foldl (\<lambda>acc b. acc * 256 + unat b) 0 bs"

section \<open>Stack, Memory, GasMeter, CodeStream\<close>

text \<open>
  Modelled from the spec: the Stack class is not among the sources. \<open>push\<close> fails past
  the capacity; \<open>pop(count, type_hint)\<close> fails if fewer than \<open>count\<close> items exist
  (the model leaves the stack as it was then) and returns the items in pop order, top
  first, each coerced by the type hint without mutating what is stored. The head of
  the list is the top of the stack. \<open>pop_uint256\<close> and \<open>pop_bytes\<close> are
  \<open>stack.pop(type_hint=...)\<close> for one item, \<open>pop3_uint256\<close> is
  \<open>stack.pop(num_items=3, type_hint=UINT256)\<close>, which returns a tuple of three.
\<close>

definition to_uint256 :: "item \<Rightarrow> nat" where
  "to_uint256 it = (case it of IntItem n \<Rightarrow> n | BytesItem bs \<Rightarrow> big_endian_to_int bs)"

definition to_bytes :: "config \<Rightarrow> item \<Rightarrow> bytes" where
  "to_bytes cfg it = (case it of IntItem n \<Rightarrow> int_to_big_endian cfg n | BytesItem bs \<Rightarrow> bs)"

definition stack_push :: "config \<Rightarrow> item \<Rightarrow> computation \<Rightarrow> unit outcome" where
  "stack_push cfg it c =
     (if stack_limit cfg \<le> length (stack c) then (Inl FullStack, c)
      else (Inr (), c\<lparr>stack := it # stack c\<rparr>))"

definition pop_uint256 :: "computation \<Rightarrow> nat outcome" where
  "pop_uint256 c =
     (case stack c of
        a # rest \<Rightarrow> (Inr (to_uint256 a), c\<lparr>stack := rest\<rparr>)
      | [] \<Rightarrow> (Inl InsufficientStack, c))"

definition pop_bytes :: "config \<Rightarrow> computation \<Rightarrow> bytes outcome" where
  "pop_bytes cfg c =
     (case stack c of
        a # rest \<Rightarrow> (Inr (to_bytes cfg a), c\<lparr>stack := rest\<rparr>)
      | [] \<Rightarrow> (Inl InsufficientStack, c))"

definition pop3_uint256 :: "computation \<Rightarrow> (nat \<times> nat \<times> nat) outcome" where
  "pop3_uint256 c =
     (case stack c of
        a # b # d # rest \<Rightarrow>
          (Inr (to_uint256 a, to_uint256 b, to_uint256 d), c\<lparr>stack := rest\<rparr>)
      | _ \<Rightarrow> (Inl InsufficientStack, c))"

text \<open>
  Modelled from the spec: the Memory class is not among the sources. \<open>extend\<close> grows
  to the next multiple of 32 that covers \<open>start + size\<close>, zero-filling, and never
  shrinks; \<open>write\<close> requires \<open>len(data) == size\<close> and the region already extended.
\<close>

definition memory_extend :: "bytes \<Rightarrow> nat \<Rightarrow> nat \<Rightarrow> bytes" where
  "memory_extend mem start sz =
     (if length mem < start + sz
      then mem @ replicate (ceil32 (start + sz) - length mem) 0
      else mem)"

definition memory_write :: "bytes \<Rightarrow> nat \<Rightarrow> nat \<Rightarrow> bytes \<Rightarrow> error + bytes" where
  "memory_write mem start sz v =
     (if length v = sz \<and> start + sz \<le> length mem
      then Inr (take start mem @ v @ drop (start + sz) mem)
      else Inl ValidationError)"

text \<open>
  Modelled from the spec: the GasMeter class is not among the sources. \<open>consume\<close>
  fails with OutOfGas if the amount exceeds what remains and leaves the meter as it
  was; otherwise it decrements.
\<close>

definition consume_gas :: "nat \<Rightarrow> computation \<Rightarrow> unit outcome" where
  "consume_gas amount c =
     (if gas_remaining (gas_meter c) < amount then (Inl OutOfGas, c)
      else (Inr (), c\<lparr>gas_meter := (gas_meter c)\<lparr>gas_remaining :=
              gas_remaining (gas_meter c) - amount\<rparr>\<rparr>))"

text \<open>
  Modelled from the spec: \<open>Computation.extend_memory\<close> is not among the sources. It
  extends the memory to cover \<open>start + size\<close>; the memory-expansion cost is ``a
  pluggable cost function'' of the growth, here \<open>memory_fee\<close>, charged through the gas
  meter before the memory grows. With the constant-zero function the extension charges
  nothing itself.
\<close>

definition extension_fee :: "config \<Rightarrow> bytes \<Rightarrow> nat \<Rightarrow> nat \<Rightarrow> nat" where
  "extension_fee cfg mem start sz =
     (let after = length (memory_extend mem start sz)
      in if length mem < after then memory_fee cfg (length mem) after else 0)"

definition extend_memory :: "config \<Rightarrow> nat \<Rightarrow> nat \<Rightarrow> computation \<Rightarrow> unit outcome" where
  "extend_memory cfg start sz c =
     (case consume_gas (extension_fee cfg (memory c) start sz) c of
        (Inl e, c1) \<Rightarrow> (Inl e, c1)
      | (Inr _, c1) \<Rightarrow> (Inr (), c1\<lparr>memory := memory_extend (memory c1) start sz\<rparr>))"

definition write_memory :: "nat \<Rightarrow> nat \<Rightarrow> bytes \<Rightarrow> computation \<Rightarrow> unit outcome" where
  "write_memory start sz v c =
     (case memory_write (memory c) start sz v of
        Inl e \<Rightarrow> (Inl e, c)
      | Inr mem \<Rightarrow> (Inr (), c\<lparr>memory := mem\<rparr>))"

text \<open>
  Modelled from the spec: the CodeStream class is not among the sources. \<open>seek\<close>
  gives a scoped cursor (the program counter is put back when the scope is left);
  \<open>read(n)\<close> returns up to \<open>n\<close> bytes from the cursor, short if past the end, and
  advances the cursor.
\<close>

definition code_read :: "nat \<Rightarrow> code_stream \<Rightarrow> bytes \<times> code_stream" where
  "code_read n cs = (slice (raw_code_bytes cs) (pc cs) (pc cs + n), cs\<lparr>pc := pc cs + n\<rparr>)"

definition code_seek :: "nat \<Rightarrow> (code_stream \<Rightarrow> 'a \<times> code_stream) \<Rightarrow> code_stream \<Rightarrow> 'a \<times> code_stream" where
  "code_seek position body cs =
     (let anchor_pc = pc cs;
          (r, cs1) = body (cs\<lparr>pc := position\<rparr>)
      in (r, cs1\<lparr>pc := anchor_pc\<rparr>))"

section \<open>State access (evm.state) and the state\_db scope (evm/vm/base.py)\<close>

text \<open>
  Modelled from the spec: the State class is not among the sources. A State is a view of
  the database at a root hash; \<open>get_balance\<close> and \<open>get_code\<close> read the account at an
  address and yield zero and the empty code for an account that does not exist; neither
  changes the view.
\<close>

definition State :: "database \<Rightarrow> bytes \<Rightarrow> state" where
  "State d r = \<lparr>state_db_of = d, root_hash = r\<rparr>"

definition get_balance :: "state \<Rightarrow> bytes \<Rightarrow> nat" where
  "get_balance st addr =
     (case tries (state_db_of st) (root_hash st) addr of
        None \<Rightarrow> 0 | Some a \<Rightarrow> account_balance a)"

definition get_code :: "state \<Rightarrow> bytes \<Rightarrow> bytes" where
  "get_code st addr =
     (case tries (state_db_of st) (root_hash st) addr of
        None \<Rightarrow> [] | Some a \<Rightarrow> account_code a)"

text \<open>
  \<open>VM.state_db\<close> is a generator-based context manager. \<open>state_db_acquire\<close> is the part
  before the \<open>yield\<close>, \<open>state_db_release\<close> the part after it, and \<open>with_state_db\<close> the
  \<open>with\<close> statement around a body that works on the yielded State: when the body
  raises, the exception is thrown into the generator at the \<open>yield\<close>, which has no
  \<open>try\<close> around it, so nothing after the \<open>yield\<close> runs. The State shares the database
  object with the VM, so what the body did to the database is the VM's database on
  every path. The debug log line is not modelled.
\<close>

definition state_db_acquire :: "vm \<Rightarrow> state" where
  "state_db_acquire self = State (db self) (state_root (header (block self)))"

definition state_db_release :: "vm \<Rightarrow> bool \<Rightarrow> state \<Rightarrow> error + vm" where
  "state_db_release self read_only st =
     (if read_only then
        (if root_hash st = state_root (header (block self)) then Inr self
         else Inl AssertionError)
      else if state_root (header (block self)) \<noteq> root_hash st then
        Inr (self\<lparr>block := (block self)\<lparr>header :=
               (header (block self))\<lparr>state_root := root_hash st\<rparr>\<rparr>\<rparr>)
      else Inr self)"

definition with_state_db ::
  "vm \<Rightarrow> bool \<Rightarrow> (state \<Rightarrow> (error + 'a) \<times> state) \<Rightarrow> (error + 'a) \<times> vm" where
  "with_state_db self read_only body =
     (let (r, st1) = body (state_db_acquire self);
          self1 = self\<lparr>db := state_db_of st1\<rparr>
      in case r of
           Inl e \<Rightarrow> (Inl e, self1)
         | Inr x \<Rightarrow>
             (case state_db_release self1 read_only st1 of
                Inl e \<Rightarrow> (Inl e, self1)
              | Inr self2 \<Rightarrow> (Inr x, self2)))"

section \<open>Environment opcodes (evm/logic/context.py)\<close>

definition balance :: "config \<Rightarrow> operation" where
  "balance cfg c =
     (case pop_bytes cfg c of
        (Inl e, c1) \<Rightarrow> (Inl e, c1)
      | (Inr popped, c1) \<Rightarrow>
          (let addr = force_bytes_to_address cfg popped
           in case with_state_db (vm c1) True (\<lambda>st. (Inr (get_balance st addr), st)) of
                (Inl e, vm1) \<Rightarrow> (Inl e, c1\<lparr>vm := vm1\<rparr>)
              | (Inr bal, vm1) \<Rightarrow> stack_push cfg (IntItem bal) (c1\<lparr>vm := vm1\<rparr>)))"

definition calldataload :: "config \<Rightarrow> operation" where
  "calldataload cfg c =
     (case pop_uint256 c of
        (Inl e, c1) \<Rightarrow> (Inl e, c1)
      | (Inr start_position, c1) \<Rightarrow>
          (let v = slice (data (msg c1)) start_position (start_position + 32);
               padded_value = pad_right v 32 0;
               normalized_value = lstrip_zero padded_value
           in stack_push cfg (BytesItem normalized_value) c1))"

definition calldatasize :: "config \<Rightarrow> operation" where
  "calldatasize cfg c = stack_push cfg (IntItem (length (data (msg c)))) c"

definition calldatacopy :: "config \<Rightarrow> operation" where
  "calldatacopy cfg c =
     (case pop3_uint256 c of
        (Inl e, c1) \<Rightarrow> (Inl e, c1)
      | (Inr (mem_start_position, calldata_start_position, sz), c1) \<Rightarrow>
          (case extend_memory cfg mem_start_position sz c1 of
             (Inl e, c2) \<Rightarrow> (Inl e, c2)
           | (Inr _, c2) \<Rightarrow>
               (let word_count = ceil32 sz div 32;
                    copy_gas_cost = word_count * GAS_COPY cfg
                in case consume_gas copy_gas_cost c2 of
                     (Inl e, c3) \<Rightarrow> (Inl e, c3)
                   | (Inr _, c3) \<Rightarrow>
                       (let v = slice (data (msg c3)) calldata_start_position
                                  (calldata_start_position + sz);
                            padded_value = pad_right v sz 0
                        in write_memory mem_start_position sz padded_value c3))))"

definition codesize :: "config \<Rightarrow> operation" where
  "codesize cfg c = stack_push cfg (IntItem (length (raw_code_bytes (code c)))) c"

definition codecopy :: "config \<Rightarrow> operation" where
  "codecopy cfg c =
     (case pop3_uint256 c of
        (Inl e, c1) \<Rightarrow> (Inl e, c1)
      | (Inr (mem_start_position, code_start_position, sz), c1) \<Rightarrow>
          (case extend_memory cfg mem_start_position sz c1 of
             (Inl e, c2) \<Rightarrow> (Inl e, c2)
           | (Inr _, c2) \<Rightarrow>
               (let word_count = ceil32 sz div 32;
                    copy_gas_cost = GAS_COPY cfg * word_count
                in case consume_gas copy_gas_cost c2 of
                     (Inl e, c3) \<Rightarrow> (Inl e, c3)
                   | (Inr _, c3) \<Rightarrow>
                       (let (code_bytes, cs) = code_seek code_start_position (code_read sz) (code c3);
                            c4 = c3\<lparr>code := cs\<rparr>;
                            padded_code_bytes = pad_right code_bytes sz 0
                        in write_memory mem_start_position sz padded_code_bytes c4))))"

definition extcodesize :: "config \<Rightarrow> operation" where
  "extcodesize cfg c =
     (case pop_bytes cfg c of
        (Inl e, c1) \<Rightarrow> (Inl e, c1)
      | (Inr popped, c1) \<Rightarrow>
          (let account = force_bytes_to_address cfg popped
           in case with_state_db (vm c1) True (\<lambda>st. (Inr (length (get_code st account)), st)) of
                (Inl e, vm1) \<Rightarrow> (Inl e, c1\<lparr>vm := vm1\<rparr>)
              | (Inr code_size, vm1) \<Rightarrow> stack_push cfg (IntItem code_size) (c1\<lparr>vm := vm1\<rparr>)))"

definition extcodecopy :: "config \<Rightarrow> operation" where
  "extcodecopy cfg c =
     (case pop_bytes cfg c of
        (Inl e, c0) \<Rightarrow> (Inl e, c0)
      | (Inr popped, c0) \<Rightarrow>
     (let account = force_bytes_to_address cfg popped in
      case pop3_uint256 c0 of
        (Inl e, c1) \<Rightarrow> (Inl e, c1)
      | (Inr (mem_start_position, code_start_position, sz), c1) \<Rightarrow>
          (case extend_memory cfg mem_start_position sz c1 of
             (Inl e, c2) \<Rightarrow> (Inl e, c2)
           | (Inr _, c2) \<Rightarrow>
               (let word_count = ceil32 sz div 32;
                    copy_gas_cost = GAS_COPY cfg * word_count
                in case consume_gas copy_gas_cost c2 of
                     (Inl e, c3) \<Rightarrow> (Inl e, c3)
                   | (Inr _, c3) \<Rightarrow>
                       (case with_state_db (vm c3) True (\<lambda>st. (Inr (get_code st account), st)) of
                          (Inl e, vm1) \<Rightarrow> (Inl e, c3\<lparr>vm := vm1\<rparr>)
                        | (Inr acode, vm1) \<Rightarrow>
                            (let code_bytes = slice acode code_start_position
                                                (code_start_position + sz);
                                 padded_code_bytes = pad_right code_bytes sz 0
                             in write_memory mem_start_position sz padded_code_bytes
                                  (c3\<lparr>vm := vm1\<rparr>)))))))"

section \<open>Ancestor lookup and opcode dispatch (evm/vm/base.py)\<close>

text \<open>
  Modelled from the spec: \<open>evm.utils.blocks.get_block_header_by_hash\<close> is not among the
  sources, and the spec names only the block/header collaborator that supplies
  \<open>parent_hash\<close> and \<open>number\<close>. The model reads the header stored under a hash and
  raises when there is none; the early return of \<open>get_ancestor_hash\<close> does not reach it.
\<close>

definition get_block_header_by_hash :: "database \<Rightarrow> bytes \<Rightarrow> error + block_header" where
  "get_block_header_by_hash d h =
     (case headers d h of None \<Rightarrow> Inl BlockNotFound | Some hdr \<Rightarrow> Inr hdr)"

text \<open>
  The \<open>while\<close> loop of \<open>get_ancestor_hash\<close> walks the parent links until the block
  number matches; nothing in the code bounds it, so not returning is the value \<open>None\<close>.
\<close>

partial_function (option) ancestor_walk ::
  "database \<Rightarrow> int \<Rightarrow> block_header \<Rightarrow> (error + bytes) option" where
  "ancestor_walk d n h =
     (if block_number h \<noteq> n then
        (case get_block_header_by_hash d (parent_hash h) of
           Inl e \<Rightarrow> Some (Inl e)
         | Inr h1 \<Rightarrow> ancestor_walk d n h1)
      else Some (Inr (hash h)))"

declare ancestor_walk.simps [code]

definition get_ancestor_hash :: "vm \<Rightarrow> int \<Rightarrow> (error + bytes) option" where
  "get_ancestor_hash self n =
     (let ancestor_depth = number (block self) - n
      in if ancestor_depth > 256 \<or> ancestor_depth < 1 then Some (Inr [])
         else (case get_block_header_by_hash (db self) (parent_hash (header (block self))) of
                 Inl e \<Rightarrow> Some (Inl e)
               | Inr h \<Rightarrow> ancestor_walk (db self) n h))"

text \<open>
  Modelled from the spec: \<open>evm.logic.invalid.InvalidOpcode\<close> is not among the sources;
  ``an \<open>InvalidOpcode(byte)\<close> operation that always fails''.
\<close>

definition InvalidOpcode :: "nat \<Rightarrow> operation" where
  "InvalidOpcode v c = (Inl (InvalidInstruction v), c)"

text \<open>
  A VM class configured with an opcode table: \<open>opcodes\<close> is a dict from opcode bytes
  to operations. Subscripting a dict raises KeyError for a missing key, which
  \<open>get_opcode_fn\<close> catches; any other error would propagate.
\<close>

record configured_vm = vm +
  opcodes :: "nat \<rightharpoonup> operation"

definition getitem :: "('k \<rightharpoonup> 'v) \<Rightarrow> 'k \<Rightarrow> error + 'v" where
  "getitem d k = (case d k of None \<Rightarrow> Inl KeyError | Some v \<Rightarrow> Inr v)"

definition get_opcode_fn :: "configured_vm \<Rightarrow> nat \<Rightarrow> error + operation" where
  "get_opcode_fn self opcode =
     (case getitem (opcodes self) opcode of
        Inr fn \<Rightarrow> Inr fn
      | Inl e \<Rightarrow> if e = KeyError then Inr (InvalidOpcode opcode) else Inl e)"

section \<open>Example inputs\<close>

text \<open>
  A schedule with the copy cost 3 per word and a memory-expansion cost of 3 per word
  of growth; addresses are the last 20 bytes of the popped value, left-padded.
\<close>

definition example_config :: config where
  "example_config =
     \<lparr>GAS_COPY = 3,
      memory_fee = (\<lambda>cur new. 3 * (new div 32) - 3 * (cur div 32)),
      stack_limit = 1024,
      force_bytes_to_address = (\<lambda>bs. replicate (20 - length bs) 0 @ drop (length bs - 20) bs),
      int_to_big_endian = (\<lambda>n. [])\<rparr>"

definition example_header :: block_header where
  "example_header = \<lparr>state_root = [1], parent_hash = [2], block_number = 300, hash = [3]\<rparr>"

definition example_vm :: vm where
  "example_vm =
     \<lparr>db = \<lparr>headers = Map.empty,
             tries = (\<lambda>r. if r = [1]
                            then [replicate 19 0 @ [5] \<mapsto>
                                    \<lparr>account_balance = 9, account_code = [96, 0]\<rparr>]
                            else Map.empty)\<rparr>,
      block = \<lparr>header = example_header, number = 300\<rparr>\<rparr>"

definition example_computation :: computation where
  "example_computation =
     \<lparr>stack = [IntItem 0],
      memory = [],
      gas_meter = \<lparr>gas_remaining = 4, gas_refunded = 0\<rparr>,
      code = \<lparr>raw_code_bytes = [96, 0, 128, 0], pc = 2\<rparr>,
      msg = \<lparr>data = [1]\<rparr>,
      vm = example_vm\<rparr>"

text \<open>
  A computation about to copy 64 bytes to memory offset 0 with 32 bytes of memory and
  4 units of gas: the expansion by one word costs 3, the copy of two words 6.
\<close>

definition example_copy :: computation where
  "example_copy =
     example_computation\<lparr>stack := [IntItem 0, IntItem 0, IntItem 64], memory := replicate 32 0\<rparr>"

text \<open>The same copy with gas to spare, and a copy of 4 bytes into empty memory.\<close>

definition example_copy_funded :: computation where
  "example_copy_funded = example_copy\<lparr>gas_meter := \<lparr>gas_remaining = 100, gas_refunded = 0\<rparr>\<rparr>"

definition example_copy4 :: computation where
  "example_copy4 =
     example_computation\<lparr>stack := [IntItem 0, IntItem 0, IntItem 4],
                          gas_meter := \<lparr>gas_remaining = 100, gas_refunded = 0\<rparr>\<rparr>"

text \<open>A body for the \<open>state_db\<close> scope that changes the root and then raises.\<close>

definition example_raising_body :: "state \<Rightarrow> (error + unit) \<times> state" where
  "example_raising_body st = (Inl OutOfGas, st\<lparr>root_hash := [7]\<rparr>)"

text \<open>A body that changes the root and returns.\<close>

definition example_mutating_body :: "state \<Rightarrow> (error + unit) \<times> state" where
  "example_mutating_body st = (Inr (), st\<lparr>root_hash := [7]\<rparr>)"

definition example_configured_vm :: configured_vm where
  "example_configured_vm =
     \<lparr>db = db example_vm, block = block example_vm,
      opcodes = [53 \<mapsto> calldataload example_config, 55 \<mapsto> calldatacopy example_config]\<rparr>"

section \<open>Ancestor hashes and opcode dispatch\<close>

text \<open>
  C10. For every requested ancestor block number, if the depth (the current block's
  number minus the requested number) is greater than 256 or less than 1,
  \<open>get_ancestor_hash\<close> returns the empty byte string: it returns, and what it returns
  is neither a hash found by the walk nor an error.
\<close>

theorem get_ancestor_hash_out_of_range:
  "number (block self) - n > 256 \<or> number (block self) - n < 1 \<Longrightarrow>
   get_ancestor_hash self n = Some (Inr [])"
  by (auto simp add: get_ancestor_hash_def Let_def)

theorem get_ancestor_hash_out_of_range_witness:
  "(number (block example_vm) - 5 > 256 \<or> number (block example_vm) - 5 < 1) \<and>
   get_ancestor_hash example_vm 5 = Some (Inr []) \<and>
   (number (block example_vm) - 300 > 256 \<or> number (block example_vm) - 300 < 1) \<and>
   get_ancestor_hash example_vm 300 = Some (Inr [])"
  using get_ancestor_hash_out_of_range [of example_vm 5]
    get_ancestor_hash_out_of_range [of example_vm 300]
  by (simp add: example_vm_def)

text \<open>
  C8. Opcode dispatch is total: for every opcode byte \<open>get_opcode_fn\<close> returns an
  operation and never an error (the KeyError of the lookup is caught); a mapped byte
  gives the mapped operation, and a byte that the opcode table does not map gives the
  sentinel \<open>InvalidOpcode(byte)\<close>, which fails on every computation.
\<close>

theorem get_opcode_fn_total:
  "(\<exists>fn. get_opcode_fn self opcode = Inr fn) \<and>
   (\<forall>fn. opcodes self opcode = Some fn \<longrightarrow> get_opcode_fn self opcode = Inr fn) \<and>
   (opcodes self opcode = None \<longrightarrow>
      get_opcode_fn self opcode = Inr (InvalidOpcode opcode) \<and>
      (\<forall>c. InvalidOpcode opcode c = (Inl (InvalidInstruction opcode), c)))"
  by (cases "opcodes self opcode") (simp_all add: get_opcode_fn_def getitem_def InvalidOpcode_def)

theorem get_opcode_fn_total_witness:
  "opcodes example_configured_vm 254 = None \<and>
   get_opcode_fn example_configured_vm 254 = Inr (InvalidOpcode 254) \<and>
   opcodes example_configured_vm 53 = Some (calldataload example_config) \<and>
   get_opcode_fn example_configured_vm 53 = Inr (calldataload example_config)"
  using get_opcode_fn_total [of example_configured_vm 254]
    get_opcode_fn_total [of example_configured_vm 53]
  by (simp add: example_configured_vm_def)

section \<open>Stack and byte-string lemmas\<close>

lemma pop_uint256_cons:
  "stack c = it # rest \<Longrightarrow> pop_uint256 c = (Inr (to_uint256 it), c\<lparr>stack := rest\<rparr>)"
  by (simp add: pop_uint256_def)

lemma pop_bytes_cons:
  "stack c = it # rest \<Longrightarrow> pop_bytes cfg c = (Inr (to_bytes cfg it), c\<lparr>stack := rest\<rparr>)"
  by (simp add: pop_bytes_def)

lemma pop3_uint256_cons:
  "stack c = a # b # d # rest \<Longrightarrow>
   pop3_uint256 c = (Inr (to_uint256 a, to_uint256 b, to_uint256 d), c\<lparr>stack := rest\<rparr>)"
  by (simp add: pop3_uint256_def)

lemma foldl_be_zero: "foldl (\<lambda>acc b. acc * 256 + unat b) 0 (replicate k (0::byte)) = 0"
  by (induction k) simp_all

lemma big_endian_to_int_zeros: "big_endian_to_int (replicate k 0) = 0"
  by (simp add: big_endian_to_int_def foldl_be_zero)

lemma big_endian_to_int_lstrip: "big_endian_to_int (lstrip_zero bs) = big_endian_to_int bs"
  unfolding big_endian_to_int_def lstrip_zero_def
  by (induction bs) simp_all

lemma foldl_be_zeros_acc:
  "foldl (\<lambda>acc b. acc * 256 + unat b) a (replicate k (0::byte)) = a * 256 ^ k"
  by (induction k arbitrary: a) simp_all

lemma big_endian_to_int_snoc_zeros:
  "big_endian_to_int (bs @ replicate k 0) = big_endian_to_int bs * 256 ^ k"
  by (simp add: big_endian_to_int_def foldl_be_zeros_acc)

lemma slice_beyond: "length D \<le> start \<Longrightarrow> slice D start stop = []"
  by (simp add: slice_def)

lemma slice_short: "length D \<le> stop \<Longrightarrow> slice D start stop = drop start D"
  by (simp add: slice_def)

lemma calldataload_run:
  assumes "stack c = it # rest" and "length (stack c) \<le> stack_limit cfg"
  shows "calldataload cfg c =
           (Inr (), c\<lparr>stack := BytesItem (lstrip_zero (pad_right
              (slice (data (msg c)) (to_uint256 it) (to_uint256 it + 32)) 32 0)) # rest\<rparr>)"
  using assms by (simp add: calldataload_def pop_uint256_cons stack_push_def Let_def)

lemma with_state_db_read:
  "with_state_db self True (\<lambda>st. (Inr (f st), st)) = (Inr (f (state_db_acquire self)), self)"
  by (simp add: with_state_db_def state_db_release_def state_db_acquire_def State_def)

section \<open>CALLDATALOAD\<close>

text \<open>
  C2. For every call-data buffer \<open>D\<close> and every offset \<open>o\<close> popped from the stack,
  CALLDATALOAD succeeds and pushes one item in place of the popped one; read as an
  integer, the pushed item is 0 when \<open>len(D) \<le> o\<close>, and when \<open>o < len(D) < o + 32\<close> it
  is the big-endian integer of the bytes \<open>D[o:]\<close> zero-padded on the right to 32 bytes.
\<close>

theorem calldataload_padding:
  assumes "stack c = it # rest" and "length (stack c) \<le> stack_limit cfg"
  shows "\<exists>v. calldataload cfg c = (Inr (), c\<lparr>stack := v # rest\<rparr>) \<and>
           (length (data (msg c)) \<le> to_uint256 it \<longrightarrow> to_uint256 v = 0) \<and>
           (to_uint256 it < length (data (msg c)) \<and> length (data (msg c)) < to_uint256 it + 32 \<longrightarrow>
              to_uint256 v = big_endian_to_int (pad_right (drop (to_uint256 it) (data (msg c))) 32 0))"
proof -
  let ?D = "data (msg c)" and ?o = "to_uint256 it"
  let ?v = "BytesItem (lstrip_zero (pad_right (slice ?D ?o (?o + 32)) 32 0))"
  have run: "calldataload cfg c = (Inr (), c\<lparr>stack := ?v # rest\<rparr>)"
    using assms by (simp add: calldataload_def pop_uint256_cons stack_push_def Let_def)
  have val: "to_uint256 ?v = big_endian_to_int (pad_right (slice ?D ?o (?o + 32)) 32 0)"
    by (simp add: to_uint256_def big_endian_to_int_lstrip)
  have beyond: "to_uint256 ?v = 0" if "length ?D \<le> ?o"
    using that unfolding val by (simp add: slice_beyond pad_right_def big_endian_to_int_zeros)
  have short: "to_uint256 ?v = big_endian_to_int (pad_right (drop ?o ?D) 32 0)"
    if "length ?D < ?o + 32"
    using that unfolding val by (simp add: slice_short)
  show ?thesis using run beyond short by blast
qed

theorem calldataload_padding_witness:
  "stack example_computation = [IntItem 0] \<and>
   length (stack example_computation) \<le> stack_limit example_config \<and>
   to_uint256 (IntItem 0) < length (data (msg example_computation)) \<and>
   length (data (msg example_computation)) < to_uint256 (IntItem 0) + 32 \<and>
   (\<exists>v. calldataload example_config example_computation =
           (Inr (), example_computation\<lparr>stack := [v]\<rparr>) \<and>
        to_uint256 v = big_endian_to_int (pad_right [1] 32 0)) \<and>
   length (data (msg (example_computation\<lparr>stack := [IntItem 7]\<rparr>))) \<le> to_uint256 (IntItem 7) \<and>
   (\<exists>v. calldataload example_config (example_computation\<lparr>stack := [IntItem 7]\<rparr>) =
           (Inr (), example_computation\<lparr>stack := [v]\<rparr>) \<and>
        to_uint256 v = 0)"
  using calldataload_padding [of example_computation "IntItem 0" "[]" example_config]
    calldataload_padding [of "example_computation\<lparr>stack := [IntItem 7]\<rparr>" "IntItem 7" "[]" example_config]
  by (simp add: example_computation_def example_config_def to_uint256_def)

text \<open>
  C3, as stated, fails: the claim has the window padded with zeros on the left, so
  that offset 0 on the one-byte input \<open>0x01\<close> would push the integer 1. The code pads
  on the right: it pushes the 32 bytes \<open>0x0100\<dots>00\<close>, which is not the integer 1.
\<close>

theorem calldataload_left_padded_counterexample:
  "calldataload example_config example_computation =
     (Inr (), example_computation\<lparr>stack := [BytesItem (1 # replicate 31 0)]\<rparr>) \<and>
   to_uint256 (BytesItem (1 # replicate 31 0)) \<noteq> 1"
proof -
  have "to_uint256 (BytesItem (1 # replicate 31 0)) = 2 ^ 248"
    using big_endian_to_int_snoc_zeros [of "[1]" 31]
    by (simp add: to_uint256_def big_endian_to_int_def)
  moreover have "calldataload example_config example_computation =
     (Inr (), example_computation\<lparr>stack := [BytesItem (1 # replicate 31 0)]\<rparr>)"
    by (simp add: calldataload_def pop_uint256_cons stack_push_def Let_def
        example_computation_def example_config_def to_uint256_def slice_def pad_right_def
        lstrip_zero_def)
  ultimately show ?thesis by simp
qed

text \<open>
  C3, amended. The value CALLDATALOAD pushes is the 32-byte window zero-padded on the
  right to 32 bytes and then stripped of its leading zero bytes, so as an integer it is
  the big-endian value of the right-padded window; in particular, with popped offset 0
  on the one-byte input \<open>0x01\<close> it pushes the 32-byte word \<open>0x0100\<dots>00\<close>, the integer
  \<open>2 ^ 248\<close>.
\<close>

theorem calldataload_right_padded:
  assumes "stack c = it # rest" and "length (stack c) \<le> stack_limit cfg"
  shows "calldataload cfg c =
           (Inr (), c\<lparr>stack := BytesItem (lstrip_zero (pad_right
              (slice (data (msg c)) (to_uint256 it) (to_uint256 it + 32)) 32 0)) # rest\<rparr>) \<and>
         to_uint256 (BytesItem (lstrip_zero (pad_right
              (slice (data (msg c)) (to_uint256 it) (to_uint256 it + 32)) 32 0))) =
           big_endian_to_int (pad_right
              (slice (data (msg c)) (to_uint256 it) (to_uint256 it + 32)) 32 0) \<and>
         (data (msg c) = [1] \<and> to_uint256 it = 0 \<longrightarrow>
            calldataload cfg c = (Inr (), c\<lparr>stack := BytesItem (1 # replicate 31 0) # rest\<rparr>) \<and>
            to_uint256 (BytesItem (1 # replicate 31 0)) = 2 ^ 248)"
proof -
  have word: "to_uint256 (BytesItem (1 # replicate 31 0)) = 2 ^ 248"
    using big_endian_to_int_snoc_zeros [of "[1]" 31]
    by (simp add: to_uint256_def big_endian_to_int_def)
  have one: "lstrip_zero (pad_right (slice [1] 0 32) 32 0) = 1 # replicate 31 0"
    by (simp add: slice_def pad_right_def lstrip_zero_def)
  show ?thesis
    using calldataload_run [OF assms] word one
    by (simp add: to_uint256_def big_endian_to_int_lstrip)
qed

theorem calldataload_right_padded_witness:
  "stack example_computation = [IntItem 0] \<and>
   length (stack example_computation) \<le> stack_limit example_config \<and>
   data (msg example_computation) = [1] \<and> to_uint256 (IntItem 0) = 0 \<and>
   calldataload example_config example_computation =
     (Inr (), example_computation\<lparr>stack := [BytesItem (1 # replicate 31 0)]\<rparr>) \<and>
   to_uint256 (BytesItem (1 # replicate 31 0)) = 2 ^ 248"
  using calldataload_right_padded [of example_computation "IntItem 0" "[]" example_config]
  by (simp add: example_computation_def example_config_def to_uint256_def slice_def
      pad_right_def lstrip_zero_def)

section \<open>BALANCE and EXTCODESIZE\<close>

text \<open>
  C9. For every address (the popped item forced to an address), BALANCE pushes exactly
  \<open>get_balance(address)\<close> and EXTCODESIZE pushes exactly the length of
  \<open>get_code(address)\<close> of the State opened at the block's state root; for an address
  with no account both push 0, and neither fails on the account's absence.
\<close>

theorem balance_extcodesize_push:
  assumes "stack c = it # rest" and "length (stack c) \<le> stack_limit cfg"
  shows "balance cfg c =
           (Inr (), c\<lparr>stack := IntItem (get_balance (state_db_acquire (vm c))
              (force_bytes_to_address cfg (to_bytes cfg it))) # rest\<rparr>) \<and>
         extcodesize cfg c =
           (Inr (), c\<lparr>stack := IntItem (length (get_code (state_db_acquire (vm c))
              (force_bytes_to_address cfg (to_bytes cfg it)))) # rest\<rparr>) \<and>
         (tries (db (vm c)) (state_root (header (block (vm c))))
            (force_bytes_to_address cfg (to_bytes cfg it)) = None \<longrightarrow>
            balance cfg c = (Inr (), c\<lparr>stack := IntItem 0 # rest\<rparr>) \<and>
            extcodesize cfg c = (Inr (), c\<lparr>stack := IntItem 0 # rest\<rparr>))"
proof -
  have b: "balance cfg c =
           (Inr (), c\<lparr>stack := IntItem (get_balance (state_db_acquire (vm c))
              (force_bytes_to_address cfg (to_bytes cfg it))) # rest\<rparr>)"
    using assms
    by (simp add: balance_def pop_bytes_cons with_state_db_read stack_push_def Let_def)
  have e: "extcodesize cfg c =
           (Inr (), c\<lparr>stack := IntItem (length (get_code (state_db_acquire (vm c))
              (force_bytes_to_address cfg (to_bytes cfg it)))) # rest\<rparr>)"
    using assms
    by (simp add: extcodesize_def pop_bytes_cons with_state_db_read stack_push_def Let_def)
  have z: "get_balance (state_db_acquire (vm c)) a = 0 \<and> get_code (state_db_acquire (vm c)) a = []"
    if "tries (db (vm c)) (state_root (header (block (vm c)))) a = None" for a
    using that by (simp add: get_balance_def get_code_def state_db_acquire_def State_def)
  show ?thesis using b e z by simp
qed

theorem balance_extcodesize_push_witness:
  "balance example_config (example_computation\<lparr>stack := [BytesItem [5]]\<rparr>) =
     (Inr (), example_computation\<lparr>stack := [IntItem 9]\<rparr>) \<and>
   extcodesize example_config (example_computation\<lparr>stack := [BytesItem [5]]\<rparr>) =
     (Inr (), example_computation\<lparr>stack := [IntItem 2]\<rparr>) \<and>
   tries (db (vm example_computation)) (state_root (header (block (vm example_computation))))
     (force_bytes_to_address example_config (to_bytes example_config (BytesItem [6]))) = None \<and>
   balance example_config (example_computation\<lparr>stack := [BytesItem [6]]\<rparr>) =
     (Inr (), example_computation\<lparr>stack := [IntItem 0]\<rparr>) \<and>
   extcodesize example_config (example_computation\<lparr>stack := [BytesItem [6]]\<rparr>) =
     (Inr (), example_computation\<lparr>stack := [IntItem 0]\<rparr>)"
  using balance_extcodesize_push [of "example_computation\<lparr>stack := [BytesItem [5]]\<rparr>"
      "BytesItem [5]" "[]" example_config]
    balance_extcodesize_push [of "example_computation\<lparr>stack := [BytesItem [6]]\<rparr>"
      "BytesItem [6]" "[]" example_config]
  by (simp add: example_computation_def example_config_def example_vm_def example_header_def
      to_bytes_def get_balance_def get_code_def state_db_acquire_def State_def)

section \<open>The state\_db scope\<close>

text \<open>
  C6. For every acquisition of the \<open>state_db\<close> scope whose body returns: the State
  is opened at the block header's state root; when acquired read-only, the release
  asserts that the State's root equals that root (an AssertionError if the body changed
  it) and the block header is left unchanged; when acquired mutably, the release writes
  the new root into the block header if and only if the root changed. The body works
  on the yielded State, so the header read at release is the one read at acquisition.
\<close>

theorem state_db_release_contract:
  fixes body :: "state \<Rightarrow> (error + 'a) \<times> state"
  assumes "body (state_db_acquire self) = (Inr x, st1)"
  shows "root_hash (state_db_acquire self) = state_root (header (block self)) \<and>
         with_state_db self True body =
           (if root_hash st1 = state_root (header (block self))
            then (Inr x, self\<lparr>db := state_db_of st1\<rparr>)
            else (Inl AssertionError, self\<lparr>db := state_db_of st1\<rparr>)) \<and>
         block (snd (with_state_db self True body)) = block self \<and>
         with_state_db self False body =
           (Inr x,
            if root_hash st1 \<noteq> state_root (header (block self))
            then self\<lparr>db := state_db_of st1,
                       block := (block self)\<lparr>header :=
                         (header (block self))\<lparr>state_root := root_hash st1\<rparr>\<rparr>\<rparr>
            else self\<lparr>db := state_db_of st1\<rparr>)"
  using assms
  by (simp add: with_state_db_def state_db_release_def state_db_acquire_def State_def)

theorem state_db_release_contract_witness:
  "example_mutating_body (state_db_acquire example_vm) =
     (Inr (), \<lparr>state_db_of = db example_vm, root_hash = [7]\<rparr>) \<and>
   with_state_db example_vm True example_mutating_body = (Inl AssertionError, example_vm) \<and>
   with_state_db example_vm False example_mutating_body =
     (Inr (), example_vm\<lparr>block := \<lparr>header = example_header\<lparr>state_root := [7]\<rparr>, number = 300\<rparr>\<rparr>)"
  using state_db_release_contract [of example_mutating_body example_vm "()"
      "\<lparr>state_db_of = db example_vm, root_hash = [7]\<rparr>"]
  by (simp add: example_mutating_body_def example_vm_def example_header_def
      state_db_acquire_def State_def)

text \<open>
  C7, as stated, fails: the claim has the release action performed on every exit path,
  the path where the body raises included. The generator has no \<open>try\<close> around its
  \<open>yield\<close>: a mutable acquisition whose body changes the root to \<open>[7]\<close> and then
  raises leaves the block header at its old root, where the release action would have
  written \<open>[7]\<close>.
\<close>

theorem state_db_release_skipped_counterexample:
  "with_state_db example_vm False example_raising_body = (Inl OutOfGas, example_vm) \<and>
   state_db_release example_vm False (snd (example_raising_body (state_db_acquire example_vm))) =
     Inr (example_vm\<lparr>block := \<lparr>header = example_header\<lparr>state_root := [7]\<rparr>, number = 300\<rparr>\<rparr>) \<and>
   state_root (header (block example_vm)) \<noteq> [7]"
  by (simp add: with_state_db_def state_db_release_def state_db_acquire_def State_def
      example_raising_body_def example_vm_def example_header_def)

text \<open>
  C7, amended. The \<open>state_db\<close> guard performs its release action (the read-only
  root-unchanged validation, or the write-back of a changed root into the block header)
  on the exit path where the code inside the scope returns; on the path where that code
  raises an error the release action is skipped: the error propagates and the block
  header is left as it was.
\<close>

theorem state_db_release_on_return:
  fixes body :: "state \<Rightarrow> (error + 'a) \<times> state"
  shows "(body (state_db_acquire self) = (Inr x, st1) \<longrightarrow>
            with_state_db self read_only body =
              (case state_db_release (self\<lparr>db := state_db_of st1\<rparr>) read_only st1 of
                 Inl e \<Rightarrow> (Inl e, self\<lparr>db := state_db_of st1\<rparr>)
               | Inr self2 \<Rightarrow> (Inr x, self2))) \<and>
         (body (state_db_acquire self) = (Inl e, st1) \<longrightarrow>
            with_state_db self read_only body = (Inl e, self\<lparr>db := state_db_of st1\<rparr>) \<and>
            block (snd (with_state_db self read_only body)) = block self)"
  by (simp add: with_state_db_def Let_def)

theorem state_db_release_on_return_witness:
  "example_mutating_body (state_db_acquire example_vm) =
     (Inr (), \<lparr>state_db_of = db example_vm, root_hash = [7]\<rparr>) \<and>
   with_state_db example_vm False example_mutating_body =
     (Inr (), example_vm\<lparr>block := \<lparr>header = example_header\<lparr>state_root := [7]\<rparr>, number = 300\<rparr>\<rparr>) \<and>
   example_raising_body (state_db_acquire example_vm) =
     (Inl OutOfGas, \<lparr>state_db_of = db example_vm, root_hash = [7]\<rparr>) \<and>
   with_state_db example_vm False example_raising_body = (Inl OutOfGas, example_vm)"
  using state_db_release_on_return [where body = example_mutating_body and self = example_vm
      and x = "()" and ?st1.0 = "\<lparr>state_db_of = db example_vm, root_hash = [7]\<rparr>"
      and read_only = False]
    state_db_release_on_return [where body = example_raising_body and self = example_vm
      and e = OutOfGas and ?st1.0 = "\<lparr>state_db_of = db example_vm, root_hash = [7]\<rparr>"
      and read_only = False]
  by (simp add: example_mutating_body_def example_raising_body_def example_vm_def
      example_header_def state_db_acquire_def State_def state_db_release_def)

section \<open>The copy opcodes\<close>

subsection \<open>Word counts, memory extension and the written region\<close>

lemma ceil32_ge: "n \<le> ceil32 n"
proof -
  define r where "r = n mod 32"
  have "r < 32" by (simp add: r_def)
  then have "n \<le> n + 32 - r" by simp
  then show ?thesis by (simp add: ceil32_def r_def)
qed

lemma ceil32_word_count: "ceil32 n div 32 = (n + 31) div 32"
proof -
  define q r where "q = n div 32" and "r = n mod 32"
  have n: "n = 32 * q + r" and r: "r < 32" by (simp_all add: q_def r_def)
  show ?thesis
  proof (cases "r = 0")
    case True
    then show ?thesis using n by (simp add: ceil32_def)
  next
    case False
    have "n mod 32 = r" by (simp add: r_def)
    moreover have "n + 32 - r = 32 * (q + 1)" using n by simp
    moreover have "(n + 31) div 32 = q + 1"
    proof -
      have "n + 31 = (r - 1) + 32 * (q + 1)" using n False by simp
      moreover have "((r - 1) + 32 * (q + 1)) div 32 = q + 1" using r by simp
      ultimately show ?thesis by simp
    qed
    ultimately show ?thesis using False by (simp add: ceil32_def)
  qed
qed

lemma memory_extend_covers: "start + sz \<le> length (memory_extend mem start sz)"
  using ceil32_ge [of "start + sz"] by (simp add: memory_extend_def)

lemma length_pad_slice: "length (pad_right (slice D s (s + n)) n 0) = n"
  by (simp add: pad_right_def slice_def)

lemma pad_slice_nth:
  "k < n \<Longrightarrow> pad_right (slice D s (s + n)) n 0 ! k = (if s + k < length D then D ! (s + k) else 0)"
  by (auto simp add: pad_right_def slice_def nth_append)

lemma written_nth:
  "k < length v \<Longrightarrow> m + length v \<le> length M \<Longrightarrow>
   (take m M @ v @ drop (m + length v) M) ! (m + k) = v ! k"
  by (simp add: nth_append)

lemma copied_region:
  assumes "k < n"
  shows "to_uint256 a + k < length (take (to_uint256 a) (memory_extend mem (to_uint256 a) n)
            @ pad_right (slice src s (s + n)) n 0
            @ drop (to_uint256 a + n) (memory_extend mem (to_uint256 a) n)) \<and>
         (take (to_uint256 a) (memory_extend mem (to_uint256 a) n)
            @ pad_right (slice src s (s + n)) n 0
            @ drop (to_uint256 a + n) (memory_extend mem (to_uint256 a) n)) ! (to_uint256 a + k) =
         (if s + k < length src then src ! (s + k) else 0)"
proof -
  let ?M = "memory_extend mem (to_uint256 a) n"
  let ?v = "pad_right (slice src s (s + n)) n 0"
  have len: "length ?v = n" by (rule length_pad_slice)
  have cov: "to_uint256 a + length ?v \<le> length ?M"
    using memory_extend_covers [of "to_uint256 a" n mem] len by simp
  have kv: "k < length ?v" using assms len by simp
  have "(take (to_uint256 a) ?M @ ?v @ drop (to_uint256 a + length ?v) ?M) ! (to_uint256 a + k) = ?v ! k"
    using kv cov by (rule written_nth)
  then have nth: "(take (to_uint256 a) ?M @ ?v @ drop (to_uint256 a + n) ?M) ! (to_uint256 a + k) = ?v ! k"
    using len by simp
  have "length (take (to_uint256 a) ?M @ ?v @ drop (to_uint256 a + n) ?M) = length ?M"
    using cov len by simp
  then have inr: "to_uint256 a + k < length (take (to_uint256 a) ?M @ ?v @ drop (to_uint256 a + n) ?M)"
    using cov kv len by linarith
  show ?thesis using nth inr pad_slice_nth [OF assms, of src s] by simp
qed

lemma code_seek_read:
  "code_seek p (code_read n) cs = (slice (raw_code_bytes cs) p (p + n), cs)"
  by (simp add: code_seek_def code_read_def)

lemma extend_memory_ok:
  "extension_fee cfg (memory c) m n \<le> gas_remaining (gas_meter c) \<Longrightarrow>
   extend_memory cfg m n c =
     (Inr (), c\<lparr>gas_meter := (gas_meter c)\<lparr>gas_remaining :=
                   gas_remaining (gas_meter c) - extension_fee cfg (memory c) m n\<rparr>,
               memory := memory_extend (memory c) m n\<rparr>)"
  by (simp add: extend_memory_def consume_gas_def)

subsection \<open>The three opcodes on a stack that holds their arguments\<close>

lemma calldatacopy_run:
  assumes "stack c = a # b # d # rest"
    and "extension_fee cfg (memory c) (to_uint256 a) (to_uint256 d)
           + ceil32 (to_uint256 d) div 32 * GAS_COPY cfg \<le> gas_remaining (gas_meter c)"
  shows "calldatacopy cfg c =
     (Inr (), c\<lparr>stack := rest,
       gas_meter := (gas_meter c)\<lparr>gas_remaining := gas_remaining (gas_meter c)
          - extension_fee cfg (memory c) (to_uint256 a) (to_uint256 d)
          - ceil32 (to_uint256 d) div 32 * GAS_COPY cfg\<rparr>,
       memory := take (to_uint256 a) (memory_extend (memory c) (to_uint256 a) (to_uint256 d))
          @ pad_right (slice (data (msg c)) (to_uint256 b) (to_uint256 b + to_uint256 d))
              (to_uint256 d) 0
          @ drop (to_uint256 a + to_uint256 d)
              (memory_extend (memory c) (to_uint256 a) (to_uint256 d))\<rparr>)"
  using assms memory_extend_covers [of "to_uint256 a" "to_uint256 d" "memory c"]
  by (simp add: calldatacopy_def pop3_uint256_cons extend_memory_ok consume_gas_def
      write_memory_def memory_write_def Let_def length_pad_slice)

lemma codecopy_run:
  assumes "stack c = a # b # d # rest"
    and "extension_fee cfg (memory c) (to_uint256 a) (to_uint256 d)
           + ceil32 (to_uint256 d) div 32 * GAS_COPY cfg \<le> gas_remaining (gas_meter c)"
  shows "codecopy cfg c =
     (Inr (), c\<lparr>stack := rest,
       gas_meter := (gas_meter c)\<lparr>gas_remaining := gas_remaining (gas_meter c)
          - extension_fee cfg (memory c) (to_uint256 a) (to_uint256 d)
          - ceil32 (to_uint256 d) div 32 * GAS_COPY cfg\<rparr>,
       memory := take (to_uint256 a) (memory_extend (memory c) (to_uint256 a) (to_uint256 d))
          @ pad_right (slice (raw_code_bytes (code c)) (to_uint256 b) (to_uint256 b + to_uint256 d))
              (to_uint256 d) 0
          @ drop (to_uint256 a + to_uint256 d)
              (memory_extend (memory c) (to_uint256 a) (to_uint256 d))\<rparr>)"
  using assms memory_extend_covers [of "to_uint256 a" "to_uint256 d" "memory c"]
  by (simp add: codecopy_def pop3_uint256_cons extend_memory_ok consume_gas_def
      write_memory_def memory_write_def Let_def length_pad_slice code_seek_read mult.commute)

lemma extcodecopy_run:
  assumes "stack c = acct # a # b # d # rest"
    and "extension_fee cfg (memory c) (to_uint256 a) (to_uint256 d)
           + ceil32 (to_uint256 d) div 32 * GAS_COPY cfg \<le> gas_remaining (gas_meter c)"
  shows "extcodecopy cfg c =
     (Inr (), c\<lparr>stack := rest,
       gas_meter := (gas_meter c)\<lparr>gas_remaining := gas_remaining (gas_meter c)
          - extension_fee cfg (memory c) (to_uint256 a) (to_uint256 d)
          - ceil32 (to_uint256 d) div 32 * GAS_COPY cfg\<rparr>,
       memory := take (to_uint256 a) (memory_extend (memory c) (to_uint256 a) (to_uint256 d))
          @ pad_right (slice (get_code (state_db_acquire (vm c))
                               (force_bytes_to_address cfg (to_bytes cfg acct)))
                        (to_uint256 b) (to_uint256 b + to_uint256 d))
              (to_uint256 d) 0
          @ drop (to_uint256 a + to_uint256 d)
              (memory_extend (memory c) (to_uint256 a) (to_uint256 d))\<rparr>)"
  using assms memory_extend_covers [of "to_uint256 a" "to_uint256 d" "memory c"]
  by (simp add: extcodecopy_def pop_bytes_cons pop3_uint256_cons extend_memory_ok consume_gas_def
      write_memory_def memory_write_def Let_def length_pad_slice with_state_db_read mult.commute)

lemma calldatacopy_out_of_gas:
  assumes "stack c = a # b # d # rest"
    and "extension_fee cfg (memory c) (to_uint256 a) (to_uint256 d) \<le> gas_remaining (gas_meter c)"
    and "gas_remaining (gas_meter c) - extension_fee cfg (memory c) (to_uint256 a) (to_uint256 d)
           < ceil32 (to_uint256 d) div 32 * GAS_COPY cfg"
  shows "calldatacopy cfg c =
     (Inl OutOfGas, c\<lparr>stack := rest,
       gas_meter := (gas_meter c)\<lparr>gas_remaining := gas_remaining (gas_meter c)
          - extension_fee cfg (memory c) (to_uint256 a) (to_uint256 d)\<rparr>,
       memory := memory_extend (memory c) (to_uint256 a) (to_uint256 d)\<rparr>)"
  using assms
  by (simp add: calldatacopy_def pop3_uint256_cons extend_memory_ok consume_gas_def Let_def)

lemma codecopy_out_of_gas:
  assumes "stack c = a # b # d # rest"
    and "extension_fee cfg (memory c) (to_uint256 a) (to_uint256 d) \<le> gas_remaining (gas_meter c)"
    and "gas_remaining (gas_meter c) - extension_fee cfg (memory c) (to_uint256 a) (to_uint256 d)
           < ceil32 (to_uint256 d) div 32 * GAS_COPY cfg"
  shows "codecopy cfg c =
     (Inl OutOfGas, c\<lparr>stack := rest,
       gas_meter := (gas_meter c)\<lparr>gas_remaining := gas_remaining (gas_meter c)
          - extension_fee cfg (memory c) (to_uint256 a) (to_uint256 d)\<rparr>,
       memory := memory_extend (memory c) (to_uint256 a) (to_uint256 d)\<rparr>)"
  using assms
  by (simp add: codecopy_def pop3_uint256_cons extend_memory_ok consume_gas_def Let_def mult.commute)

lemma extcodecopy_out_of_gas:
  assumes "stack c = acct # a # b # d # rest"
    and "extension_fee cfg (memory c) (to_uint256 a) (to_uint256 d) \<le> gas_remaining (gas_meter c)"
    and "gas_remaining (gas_meter c) - extension_fee cfg (memory c) (to_uint256 a) (to_uint256 d)
           < ceil32 (to_uint256 d) div 32 * GAS_COPY cfg"
  shows "extcodecopy cfg c =
     (Inl OutOfGas, c\<lparr>stack := rest,
       gas_meter := (gas_meter c)\<lparr>gas_remaining := gas_remaining (gas_meter c)
          - extension_fee cfg (memory c) (to_uint256 a) (to_uint256 d)\<rparr>,
       memory := memory_extend (memory c) (to_uint256 a) (to_uint256 d)\<rparr>)"
  using assms
  by (simp add: extcodecopy_def pop_bytes_cons pop3_uint256_cons extend_memory_ok consume_gas_def
      Let_def mult.commute)

subsection \<open>Order of the memory extension and the gas charge\<close>

text \<open>
  C1, as stated, fails: the claim has the word-count fee charged before the memory is
  extended, so that a failed charge leaves the memory's size as it was. Each copy opcode
  calls \<open>extend_memory\<close> first and \<open>consume_gas\<close> after it: CALLDATACOPY of 64 bytes
  to offset 0 with 32 bytes of memory and 4 units of gas fails with OutOfGas on the
  word-count fee of 6 and leaves 64 bytes of memory.
\<close>

theorem copy_gas_after_extension_counterexample:
  "fst (calldatacopy example_config example_copy) = Inl OutOfGas \<and>
   length (memory example_copy) = 32 \<and>
   length (memory (snd (calldatacopy example_config example_copy))) = 64"
  using calldatacopy_out_of_gas [of example_copy "IntItem 0" "IntItem 0" "IntItem 64" "[]"
      example_config]
  by (simp add: example_copy_def example_computation_def example_config_def extension_fee_def
      memory_extend_def ceil32_def to_uint256_def)

text \<open>
  C1, amended. For every copy opcode (CALLDATACOPY, CODECOPY, EXTCODECOPY) and every
  starting state, the memory extension is performed first and the word-count gas fee is
  then charged through the gas meter, strictly before the copy is written;
  consequently, if that gas charge fails with OutOfGas, nothing has been copied: the
  memory is the memory before the opcode ran, extended (by zero bytes only) as
  \<open>extend_memory\<close> left it.
\<close>

theorem copy_out_of_gas_after_extension:
  assumes "stack c = a # b # d # rest"
    and "extension_fee cfg (memory c) (to_uint256 a) (to_uint256 d) \<le> gas_remaining (gas_meter c)"
    and "gas_remaining (gas_meter c) - extension_fee cfg (memory c) (to_uint256 a) (to_uint256 d)
           < ceil32 (to_uint256 d) div 32 * GAS_COPY cfg"
  shows "fst (calldatacopy cfg c) = Inl OutOfGas \<and>
         memory (snd (calldatacopy cfg c)) = memory_extend (memory c) (to_uint256 a) (to_uint256 d) \<and>
         fst (codecopy cfg c) = Inl OutOfGas \<and>
         memory (snd (codecopy cfg c)) = memory_extend (memory c) (to_uint256 a) (to_uint256 d) \<and>
         fst (extcodecopy cfg (c\<lparr>stack := acct # stack c\<rparr>)) = Inl OutOfGas \<and>
         memory (snd (extcodecopy cfg (c\<lparr>stack := acct # stack c\<rparr>))) =
           memory_extend (memory c) (to_uint256 a) (to_uint256 d) \<and>
         (\<exists>k. memory_extend (memory c) (to_uint256 a) (to_uint256 d) = memory c @ replicate k 0)"
proof -
  have ext: "stack (c\<lparr>stack := acct # stack c\<rparr>) = acct # a # b # d # rest"
    using assms(1) by simp
  have z: "\<exists>k. memory_extend (memory c) (to_uint256 a) (to_uint256 d) = memory c @ replicate k 0"
    by (metis append_Nil2 memory_extend_def replicate_0)
  show ?thesis
    using calldatacopy_out_of_gas [OF assms] codecopy_out_of_gas [OF assms]
      extcodecopy_out_of_gas [OF ext, of cfg] assms(2,3) z
    by simp
qed

theorem copy_out_of_gas_after_extension_witness:
  "stack example_copy = [IntItem 0, IntItem 0, IntItem 64] \<and>
   extension_fee example_config (memory example_copy) (to_uint256 (IntItem 0)) (to_uint256 (IntItem 64))
     \<le> gas_remaining (gas_meter example_copy) \<and>
   gas_remaining (gas_meter example_copy)
     - extension_fee example_config (memory example_copy) (to_uint256 (IntItem 0)) (to_uint256 (IntItem 64))
     < ceil32 (to_uint256 (IntItem 64)) div 32 * GAS_COPY example_config \<and>
   fst (calldatacopy example_config example_copy) = Inl OutOfGas \<and>
   memory (snd (calldatacopy example_config example_copy)) = replicate 64 0 \<and>
   fst (codecopy example_config example_copy) = Inl OutOfGas \<and>
   memory (snd (codecopy example_config example_copy)) = replicate 64 0 \<and>
   fst (extcodecopy example_config (example_copy\<lparr>stack := BytesItem [5] # stack example_copy\<rparr>))
     = Inl OutOfGas \<and>
   memory (snd (extcodecopy example_config
     (example_copy\<lparr>stack := BytesItem [5] # stack example_copy\<rparr>))) = replicate 64 0"
  using copy_out_of_gas_after_extension [of example_copy "IntItem 0" "IntItem 0" "IntItem 64" "[]"
      example_config "BytesItem [5]"]
  by (simp add: example_copy_def example_computation_def example_config_def extension_fee_def
      memory_extend_def ceil32_def to_uint256_def replicate_add [symmetric])

subsection \<open>Zero fill\<close>

text \<open>
  C4. For CODECOPY, CALLDATACOPY and EXTCODECOPY with popped arguments
  (memOffset, srcOffset, size), whenever the stack holds the arguments and the gas
  covers the fees, the opcode completes without an error whatever the offsets are, and
  for every \<open>k < size\<close> the byte of memory at \<open>memOffset + k\<close> is \<open>source[srcOffset + k]\<close>
  if that index is within the source and zero otherwise; this holds for every source
  length, so in particular when \<open>srcOffset + size > len(source)\<close>. The source is the call
  data, the running code, and the code of the popped account.
\<close>

theorem copy_zero_fill:
  assumes "stack c = a # b # d # rest"
    and "extension_fee cfg (memory c) (to_uint256 a) (to_uint256 d)
           + ceil32 (to_uint256 d) div 32 * GAS_COPY cfg \<le> gas_remaining (gas_meter c)"
  shows "fst (calldatacopy cfg c) = Inr () \<and>
         (\<forall>k < to_uint256 d.
            to_uint256 a + k < length (memory (snd (calldatacopy cfg c))) \<and>
            memory (snd (calldatacopy cfg c)) ! (to_uint256 a + k) =
              (if to_uint256 b + k < length (data (msg c))
               then data (msg c) ! (to_uint256 b + k) else 0)) \<and>
         fst (codecopy cfg c) = Inr () \<and>
         (\<forall>k < to_uint256 d.
            to_uint256 a + k < length (memory (snd (codecopy cfg c))) \<and>
            memory (snd (codecopy cfg c)) ! (to_uint256 a + k) =
              (if to_uint256 b + k < length (raw_code_bytes (code c))
               then raw_code_bytes (code c) ! (to_uint256 b + k) else 0)) \<and>
         fst (extcodecopy cfg (c\<lparr>stack := acct # stack c\<rparr>)) = Inr () \<and>
         (\<forall>k < to_uint256 d.
            to_uint256 a + k < length (memory (snd (extcodecopy cfg (c\<lparr>stack := acct # stack c\<rparr>)))) \<and>
            memory (snd (extcodecopy cfg (c\<lparr>stack := acct # stack c\<rparr>))) ! (to_uint256 a + k) =
              (if to_uint256 b + k < length (get_code (state_db_acquire (vm c))
                                              (force_bytes_to_address cfg (to_bytes cfg acct)))
               then get_code (state_db_acquire (vm c))
                      (force_bytes_to_address cfg (to_bytes cfg acct)) ! (to_uint256 b + k)
               else 0))"
proof -
  have ext: "stack (c\<lparr>stack := acct # stack c\<rparr>) = acct # a # b # d # rest"
    using assms(1) by simp
  have gas: "extension_fee cfg (memory (c\<lparr>stack := acct # stack c\<rparr>)) (to_uint256 a) (to_uint256 d)
           + ceil32 (to_uint256 d) div 32 * GAS_COPY cfg
           \<le> gas_remaining (gas_meter (c\<lparr>stack := acct # stack c\<rparr>))"
    using assms(2) by simp
  have 1: "fst (calldatacopy cfg c) = Inr () \<and>
         (\<forall>k < to_uint256 d.
            to_uint256 a + k < length (memory (snd (calldatacopy cfg c))) \<and>
            memory (snd (calldatacopy cfg c)) ! (to_uint256 a + k) =
              (if to_uint256 b + k < length (data (msg c))
               then data (msg c) ! (to_uint256 b + k) else 0))"
    using copied_region [of _ "to_uint256 d" a "memory c" "data (msg c)" "to_uint256 b"]
    by (simp add: calldatacopy_run [OF assms])
  have 2: "fst (codecopy cfg c) = Inr () \<and>
         (\<forall>k < to_uint256 d.
            to_uint256 a + k < length (memory (snd (codecopy cfg c))) \<and>
            memory (snd (codecopy cfg c)) ! (to_uint256 a + k) =
              (if to_uint256 b + k < length (raw_code_bytes (code c))
               then raw_code_bytes (code c) ! (to_uint256 b + k) else 0))"
    using copied_region [of _ "to_uint256 d" a "memory c" "raw_code_bytes (code c)" "to_uint256 b"]
    by (simp add: codecopy_run [OF assms])
  have 3: "fst (extcodecopy cfg (c\<lparr>stack := acct # stack c\<rparr>)) = Inr () \<and>
         (\<forall>k < to_uint256 d.
            to_uint256 a + k < length (memory (snd (extcodecopy cfg (c\<lparr>stack := acct # stack c\<rparr>)))) \<and>
            memory (snd (extcodecopy cfg (c\<lparr>stack := acct # stack c\<rparr>))) ! (to_uint256 a + k) =
              (if to_uint256 b + k < length (get_code (state_db_acquire (vm c))
                                              (force_bytes_to_address cfg (to_bytes cfg acct)))
               then get_code (state_db_acquire (vm c))
                      (force_bytes_to_address cfg (to_bytes cfg acct)) ! (to_uint256 b + k)
               else 0))"
    using copied_region [of _ "to_uint256 d" a "memory c"
        "get_code (state_db_acquire (vm c)) (force_bytes_to_address cfg (to_bytes cfg acct))"
        "to_uint256 b"]
    by (simp add: extcodecopy_run [OF ext gas])
  show ?thesis using 1 2 3 by blast
qed

theorem copy_zero_fill_witness:
  "stack example_copy_funded = [IntItem 0, IntItem 0, IntItem 64] \<and>
   extension_fee example_config (memory example_copy_funded) (to_uint256 (IntItem 0))
       (to_uint256 (IntItem 64))
     + ceil32 (to_uint256 (IntItem 64)) div 32 * GAS_COPY example_config
     \<le> gas_remaining (gas_meter example_copy_funded) \<and>
   length (data (msg example_copy_funded)) < to_uint256 (IntItem 0) + to_uint256 (IntItem 64) \<and>
   fst (calldatacopy example_config example_copy_funded) = Inr () \<and>
   memory (snd (calldatacopy example_config example_copy_funded)) ! 0 = 1 \<and>
   memory (snd (calldatacopy example_config example_copy_funded)) ! 1 = 0 \<and>
   memory (snd (calldatacopy example_config example_copy_funded)) ! 63 = 0 \<and>
   63 < length (memory (snd (calldatacopy example_config example_copy_funded))) \<and>
   fst (codecopy example_config example_copy_funded) = Inr () \<and>
   memory (snd (codecopy example_config example_copy_funded)) ! 2 = 128 \<and>
   memory (snd (codecopy example_config example_copy_funded)) ! 4 = 0 \<and>
   fst (extcodecopy example_config
          (example_copy_funded\<lparr>stack := BytesItem [5] # stack example_copy_funded\<rparr>)) = Inr () \<and>
   memory (snd (extcodecopy example_config
          (example_copy_funded\<lparr>stack := BytesItem [5] # stack example_copy_funded\<rparr>))) ! 0 = 96 \<and>
   memory (snd (extcodecopy example_config
          (example_copy_funded\<lparr>stack := BytesItem [5] # stack example_copy_funded\<rparr>))) ! 2 = 0"
proof -
  have h1: "stack example_copy_funded = [IntItem 0, IntItem 0, IntItem 64]"
    by (simp add: example_copy_funded_def example_copy_def)
  have h2: "extension_fee example_config (memory example_copy_funded) (to_uint256 (IntItem 0))
       (to_uint256 (IntItem 64))
     + ceil32 (to_uint256 (IntItem 64)) div 32 * GAS_COPY example_config
     \<le> gas_remaining (gas_meter example_copy_funded)"
    by (simp add: example_copy_funded_def example_copy_def example_config_def extension_fee_def
        memory_extend_def ceil32_def to_uint256_def)
  have src: "data (msg example_copy_funded) = [1]"
    "raw_code_bytes (code example_copy_funded) = [96, 0, 128, 0]"
    "get_code (state_db_acquire (vm example_copy_funded))
       (force_bytes_to_address example_config (to_bytes example_config (BytesItem [5]))) = [96, 0]"
    by (simp_all add: example_copy_funded_def example_copy_def example_computation_def
        example_config_def example_vm_def example_header_def get_code_def state_db_acquire_def
        State_def to_bytes_def)
  have n: "to_uint256 (IntItem 0) = 0" "to_uint256 (IntItem 64) = 64"
    by (simp_all add: to_uint256_def)
  show ?thesis
    using h1 h2 copy_zero_fill [OF h1 h2, of "BytesItem [5]"]
    unfolding src n by simp
qed

subsection \<open>Stack, memory and gas effects\<close>

text \<open>
  C5. CALLDATACOPY and CODECOPY pop exactly three stack items, in the order
  (memOffset, srcOffset, size) from the top; the memory they leave covers the region of
  size bytes at memOffset and is the extended memory with the padded source bytes
  written there; and beyond what the memory extension itself charges they charge
  exactly \<open>ceil(size/32) * GAS_COPY\<close> gas for the copy, so a copy of size 4 is charged
  \<open>1 * GAS_COPY\<close>.
\<close>

theorem copy_pops_extends_charges:
  assumes "stack c = a # b # d # rest"
    and "extension_fee cfg (memory c) (to_uint256 a) (to_uint256 d)
           + ceil32 (to_uint256 d) div 32 * GAS_COPY cfg \<le> gas_remaining (gas_meter c)"
  shows "fst (calldatacopy cfg c) = Inr () \<and>
         stack (snd (calldatacopy cfg c)) = rest \<and>
         (\<forall>k < to_uint256 d. to_uint256 a + k < length (memory (snd (calldatacopy cfg c)))) \<and>
         memory_write (memory_extend (memory c) (to_uint256 a) (to_uint256 d))
             (to_uint256 a) (to_uint256 d)
             (pad_right (slice (data (msg c)) (to_uint256 b) (to_uint256 b + to_uint256 d))
                (to_uint256 d) 0)
           = Inr (memory (snd (calldatacopy cfg c))) \<and>
         gas_remaining (gas_meter (snd (calldatacopy cfg c)))
             + extension_fee cfg (memory c) (to_uint256 a) (to_uint256 d)
             + (to_uint256 d + 31) div 32 * GAS_COPY cfg
           = gas_remaining (gas_meter c) \<and>
         fst (codecopy cfg c) = Inr () \<and>
         stack (snd (codecopy cfg c)) = rest \<and>
         (\<forall>k < to_uint256 d. to_uint256 a + k < length (memory (snd (codecopy cfg c)))) \<and>
         memory_write (memory_extend (memory c) (to_uint256 a) (to_uint256 d))
             (to_uint256 a) (to_uint256 d)
             (pad_right (slice (raw_code_bytes (code c)) (to_uint256 b) (to_uint256 b + to_uint256 d))
                (to_uint256 d) 0)
           = Inr (memory (snd (codecopy cfg c))) \<and>
         gas_remaining (gas_meter (snd (codecopy cfg c)))
             + extension_fee cfg (memory c) (to_uint256 a) (to_uint256 d)
             + (to_uint256 d + 31) div 32 * GAS_COPY cfg
           = gas_remaining (gas_meter c) \<and>
         (to_uint256 d = 4 \<longrightarrow>
            gas_remaining (gas_meter (snd (calldatacopy cfg c)))
                + extension_fee cfg (memory c) (to_uint256 a) (to_uint256 d) + 1 * GAS_COPY cfg
              = gas_remaining (gas_meter c) \<and>
            gas_remaining (gas_meter (snd (codecopy cfg c)))
                + extension_fee cfg (memory c) (to_uint256 a) (to_uint256 d) + 1 * GAS_COPY cfg
              = gas_remaining (gas_meter c))"
proof -
  let ?m = "to_uint256 a" and ?n = "to_uint256 d"
  have cov: "?m + ?n \<le> length (memory_extend (memory c) ?m ?n)"
    by (rule memory_extend_covers)
  have gas: "extension_fee cfg (memory c) ?m ?n + (?n + 31) div 32 * GAS_COPY cfg
               \<le> gas_remaining (gas_meter c)"
    using assms(2) by (simp add: ceil32_word_count)
  have four: "(?n + 31) div 32 = 1" if "?n = 4"
    using that by simp
  have 1: "fst (calldatacopy cfg c) = Inr ()" "stack (snd (calldatacopy cfg c)) = rest"
    by (simp_all add: calldatacopy_run [OF assms])
  have 2: "fst (codecopy cfg c) = Inr ()" "stack (snd (codecopy cfg c)) = rest"
    by (simp_all add: codecopy_run [OF assms])
  have 3: "\<forall>k < ?n. ?m + k < length (memory (snd (calldatacopy cfg c)))"
    "\<forall>k < ?n. ?m + k < length (memory (snd (codecopy cfg c)))"
    using cov by (simp_all add: calldatacopy_run [OF assms] codecopy_run [OF assms] length_pad_slice)
  have 4: "memory_write (memory_extend (memory c) ?m ?n) ?m ?n
             (pad_right (slice (data (msg c)) (to_uint256 b) (to_uint256 b + ?n)) ?n 0)
           = Inr (memory (snd (calldatacopy cfg c)))"
    "memory_write (memory_extend (memory c) ?m ?n) ?m ?n
             (pad_right (slice (raw_code_bytes (code c)) (to_uint256 b) (to_uint256 b + ?n)) ?n 0)
           = Inr (memory (snd (codecopy cfg c)))"
    using cov
    by (simp_all add: calldatacopy_run [OF assms] codecopy_run [OF assms] memory_write_def
        length_pad_slice)
  have 5: "gas_remaining (gas_meter (snd (calldatacopy cfg c)))
             + extension_fee cfg (memory c) ?m ?n + (?n + 31) div 32 * GAS_COPY cfg
           = gas_remaining (gas_meter c)"
    "gas_remaining (gas_meter (snd (codecopy cfg c)))
             + extension_fee cfg (memory c) ?m ?n + (?n + 31) div 32 * GAS_COPY cfg
           = gas_remaining (gas_meter c)"
    using gas
    by (simp_all add: calldatacopy_run [OF assms] codecopy_run [OF assms] ceil32_word_count)
  have 6: "gas_remaining (gas_meter (snd (calldatacopy cfg c)))
                + extension_fee cfg (memory c) ?m ?n + 1 * GAS_COPY cfg
              = gas_remaining (gas_meter c) \<and>
            gas_remaining (gas_meter (snd (codecopy cfg c)))
                + extension_fee cfg (memory c) ?m ?n + 1 * GAS_COPY cfg
              = gas_remaining (gas_meter c)" if "?n = 4"
    using 5 four [OF that] by simp
  show ?thesis using 1 2 3 4 5 6 by blast
qed

theorem copy_pops_extends_charges_witness:
  "stack example_copy4 = [IntItem 0, IntItem 0, IntItem 4] \<and>
   extension_fee example_config (memory example_copy4) (to_uint256 (IntItem 0))
       (to_uint256 (IntItem 4))
     + ceil32 (to_uint256 (IntItem 4)) div 32 * GAS_COPY example_config
     \<le> gas_remaining (gas_meter example_copy4) \<and>
   to_uint256 (IntItem 4) = 4 \<and>
   fst (codecopy example_config example_copy4) = Inr () \<and>
   stack (snd (codecopy example_config example_copy4)) = [] \<and>
   3 < length (memory (snd (codecopy example_config example_copy4))) \<and>
   memory (snd (codecopy example_config example_copy4)) = [96, 0, 128, 0] @ replicate 28 0 \<and>
   gas_remaining (gas_meter (snd (codecopy example_config example_copy4))) + 3 + 1 * 3 = 100 \<and>
   fst (calldatacopy example_config example_copy4) = Inr () \<and>
   stack (snd (calldatacopy example_config example_copy4)) = [] \<and>
   memory (snd (calldatacopy example_config example_copy4)) = 1 # replicate 31 0 \<and>
   gas_remaining (gas_meter (snd (calldatacopy example_config example_copy4))) + 3 + 1 * 3 = 100"
proof -
  have h1: "stack example_copy4 = [IntItem 0, IntItem 0, IntItem 4]"
    by (simp add: example_copy4_def)
  have h2: "extension_fee example_config (memory example_copy4) (to_uint256 (IntItem 0))
       (to_uint256 (IntItem 4))
     + ceil32 (to_uint256 (IntItem 4)) div 32 * GAS_COPY example_config
     \<le> gas_remaining (gas_meter example_copy4)"
    by (simp add: example_copy4_def example_computation_def example_config_def extension_fee_def
        memory_extend_def ceil32_def to_uint256_def)
  have n: "to_uint256 (IntItem 0) = 0" "to_uint256 (IntItem 4) = 4"
    by (simp_all add: to_uint256_def)
  have fee: "extension_fee example_config (memory example_copy4) 0 4 = 3"
    "GAS_COPY example_config = 3" "gas_remaining (gas_meter example_copy4) = 100"
    by (simp_all add: example_copy4_def example_computation_def example_config_def
        extension_fee_def memory_extend_def ceil32_def)
  have w: "memory_write (memory_extend (memory example_copy4) 0 4) 0 4
             (pad_right (slice (raw_code_bytes (code example_copy4)) 0 (0 + 4)) 4 0)
           = Inr ([96, 0, 128, 0] @ replicate 28 0)"
    "memory_write (memory_extend (memory example_copy4) 0 4) 0 4
             (pad_right (slice (data (msg example_copy4)) 0 (0 + 4)) 4 0)
           = Inr (1 # replicate 31 0)"
    by (simp_all add: example_copy4_def example_computation_def memory_write_def
        memory_extend_def ceil32_def pad_right_def slice_def replicate_add [symmetric])
  show ?thesis
    using h1 h2 copy_pops_extends_charges [OF h1 h2]
    unfolding n fee w by simp
qed

end
